theory Spec2Isabelle
  imports Main
begin

section \<open>JavaScript values\<close>

text \<open>
  The telemetry code tests its arguments with JavaScript's truthiness (\<open>!x\<close>, \<open>x || y\<close>).
  An optional argument is an \<open>option\<close> (\<open>None\<close> is \<open>undefined\<close>); a string is falsy
  exactly when it is empty, a number exactly when it is zero (timestamps are whole
  milliseconds, so NaN does not arise).
\<close>

definition or_string :: "string option \<Rightarrow> string \<Rightarrow> string" where
  \<comment> \<open>\<open>a || b\<close> for an optional string \<open>a\<close>\<close>
  "or_string a b = (case a of None \<Rightarrow> b | Some s \<Rightarrow> if s = [] then b else s)"

definition or_number :: "int option \<Rightarrow> int \<Rightarrow> int" where
  \<comment> \<open>\<open>a || b\<close> for an optional number \<open>a\<close>\<close>
  "or_number a b = (case a of None \<Rightarrow> b | Some n \<Rightarrow> if n = 0 then b else n)"

text \<open>
  A callback argument is any JavaScript value: \<open>null\<close>, \<open>undefined\<close>, a function (named
  here by a number), or some other value, of which only the truthiness matters.
\<close>

datatype jsval = JsNull | JsUndefined | JsFunction nat | JsOther bool

fun truthy :: "jsval \<Rightarrow> bool" where
  "truthy JsNull = False"
| "truthy JsUndefined = False"
| "truthy (JsFunction f) = True"
| "truthy (JsOther b) = b"

fun is_function :: "jsval \<Rightarrow> bool" where
  \<comment> \<open>\<open>typeof v === 'function'\<close>\<close>
  "is_function (JsFunction f) = True"
| "is_function v = False"

definition or_null :: "jsval \<Rightarrow> jsval" where
  \<comment> \<open>\<open>v || null\<close>\<close>
  "or_null v = (if truthy v then v else JsNull)"

datatype OperationStatus = OK | ERROR

type_synonym TelemetryError = nat

text \<open>
  What a user-supplied function was called with. The functions themselves are supplied by
  the application; the model records each call.
\<close>

datatype call =
    SuccessCall nat OperationStatus
  | FailureCall nat OperationStatus "TelemetryError option" "int option"
  | ReadyCall nat

text \<open>
  The two trampolines of an event, with their arguments, and what a success or failure
  callback does when a trampoline calls it, as far as the trampolines depend on it: it
  returns, it throws, or it calls a trampoline of the same event itself and passes on
  what that call does. A call that finds no room on the call stack throws a \<open>RangeError\<close>.
\<close>

datatype trampoline =
    OnSuccess OperationStatus
  | OnFailure OperationStatus "TelemetryError option" "int option"

datatype behaviour = Returns | Throws | Calls trampoline

datatype js_error = CallbackError nat | RangeError


section \<open>Context\<close>

text \<open>
  Modelled from the spec: \<open>proto.analytics.Context\<close> (generated protobuf code, not among
  the sources) is a structured record of fingerprint, group and an open set of ambient
  attributes. It is a map from field names to values; a string getter of an unset field
  returns the empty string.
\<close>

type_synonym proto_Context = "string \<rightharpoonup> string"

definition getFingerprint :: "proto_Context \<Rightarrow> string" where
  "getFingerprint c = (case c ''fingerprint'' of None \<Rightarrow> [] | Some v \<Rightarrow> v)"

definition getGroup :: "proto_Context \<Rightarrow> string" where
  "getGroup c = (case c ''group'' of None \<Rightarrow> [] | Some v \<Rightarrow> v)"

datatype ContextException = ContextException string


section \<open>Requests and the event queue\<close>

type_synonym Routine = string

datatype body_value = PayloadValue string | SerializedContext proto_Context

text \<open>
  Modelled from the spec: \<open>bloombox.telemetry.rpc.TelemetryRPC\<close> (not among the sources) is
  the request record \<open>{identifier, operation designator, success/failure trampolines, body,
  merged context}\<close>, built from the constructor arguments that \<open>generateRPC\<close> passes. The two
  trampolines passed are the prototype's \<open>onSuccess\<close> and \<open>onFailure\<close>, the same for every
  event, and are left out of the record. The merged context is held by its address.
\<close>

record TelemetryRPC =
  rpc_uuid :: string
  rpc_method :: Routine
  rpc_body :: "string \<rightharpoonup> body_value"
  rpc_context :: nat

record QueuedEvent =
  qe_rpc :: TelemetryRPC
  qe_uuid :: string

definition prepareQueuedEvent :: "string \<Rightarrow> TelemetryRPC \<Rightarrow> string option \<Rightarrow> QueuedEvent" where
  \<comment> \<open>\<open>generated\<close> is what \<open>bloombox.util.generateUUID()\<close> returns if it is called\<close>
  "prepareQueuedEvent generated rpc opt_uuid =
     (let uuid = (case opt_uuid of None \<Rightarrow> generated | Some u \<Rightarrow> u)
      in \<lparr>qe_rpc = rpc, qe_uuid = uuid\<rparr>)"

text \<open>
  Modelled from the spec: \<open>goog.structs.PriorityQueue\<close> (Closure Library, not among the
  sources) holds values with numeric priorities; lower priority values dequeue first, and
  \<open>dequeue\<close> on an empty queue returns \<open>undefined\<close> (here \<open>None\<close>) without blocking. The
  queue is kept as a list in dequeue order. The order among equal priorities is not
  specified; this model places a new entry behind the entries of equal priority.
\<close>

type_synonym 'a PriorityQueue = "(int \<times> 'a) list"

fun pq_enqueue :: "int \<Rightarrow> 'a \<Rightarrow> 'a PriorityQueue \<Rightarrow> 'a PriorityQueue" where
  "pq_enqueue p v [] = [(p, v)]"
| "pq_enqueue p v ((q, u) # rest) =
     (if p < q then (p, v) # (q, u) # rest else (q, u) # pq_enqueue p v rest)"

fun pq_dequeue :: "'a PriorityQueue \<Rightarrow> 'a option \<times> 'a PriorityQueue" where
  "pq_dequeue [] = (None, [])"
| "pq_dequeue ((p, v) # rest) = (Some v, rest)"

record EventQueue =
  queue :: "QueuedEvent PriorityQueue"

definition EventQueue :: EventQueue where
  \<comment> \<open>the constructor: an empty priority queue\<close>
  "EventQueue = \<lparr>queue = []\<rparr>"

definition enqueue :: "int \<Rightarrow> QueuedEvent \<Rightarrow> EventQueue \<times> string list \<Rightarrow> EventQueue \<times> string list" where
  \<comment> \<open>the second component is the log\<close>
  "enqueue priority ev s =
     (case s of (this, lg) \<Rightarrow>
        (this\<lparr>queue := pq_enqueue priority ev (queue this)\<rparr>,
         lg @ [''Enqueued telemetry event with UUID: '' @ qe_uuid ev @ ''.'']))"

text \<open>
  The loop of \<open>dequeue\<close>. The mapper receives what the priority queue returned, which is
  \<open>undefined\<close> (\<open>None\<close>) when the queue was empty; its effect is a change of a state \<open>'s\<close>
  of its own. The count is a whole number.
\<close>

function dequeue_while ::
  "(QueuedEvent option \<Rightarrow> 's \<Rightarrow> 's) \<Rightarrow> int \<Rightarrow> EventQueue \<times> 's \<Rightarrow> EventQueue \<times> 's" where
  "dequeue_while mapper countToDequeue (this, s) =
     (if countToDequeue > 0 then
        (case pq_dequeue (queue this) of (ev, rest) \<Rightarrow>
           dequeue_while mapper (countToDequeue - 1) (this\<lparr>queue := rest\<rparr>, mapper ev s))
      else (this, s))"
  by pat_completeness auto
termination
  by (relation "measure (\<lambda>(mapper, countToDequeue, st). nat countToDequeue)") auto

definition dequeue ::
  "int \<Rightarrow> (QueuedEvent option \<Rightarrow> 's \<Rightarrow> 's) \<Rightarrow> int option \<Rightarrow> EventQueue \<times> 's \<Rightarrow> EventQueue \<times> 's" where
  \<comment> \<open>\<open>BATCH_SIZE\<close> is the constant \<open>bloombox.telemetry.BATCH_SIZE\<close>\<close>
  "dequeue BATCH_SIZE mapper opt_amt st =
     (let countToDequeue = (case opt_amt of None \<Rightarrow> BATCH_SIZE | Some amt \<Rightarrow> amt)
      in dequeue_while mapper countToDequeue st)"

definition recording_mapper :: "QueuedEvent option \<Rightarrow> QueuedEvent option list \<Rightarrow> QueuedEvent option list" where
  \<comment> \<open>a mapper that keeps every argument it is invoked with, in order\<close>
  "recording_mapper ev seen = seen @ [ev]"

section \<open>The world the events live in\<close>

text \<open>
  Context objects are mutable and passed by reference, so they live in a store: \<open>heap\<close>
  holds the \<open>proto.analytics.Context\<close> objects by address, and a new object takes the
  next free address. \<open>ambient\<close> is the address of the global context. The dispatch queue,
  the log, the configured endpoint, the record of the calls made to user-supplied
  functions and the behaviour of each callback function complete the state.
\<close>

record world =
  heap :: "proto_Context list"
  ambient :: nat
  eventQueue :: EventQueue
  log_lines :: "string list"
  endpoints_telemetry :: "string option"
  calls :: "call list"
  behaviours :: "nat \<Rightarrow> behaviour"

definition deref :: "world \<Rightarrow> nat \<Rightarrow> proto_Context" where
  \<comment> \<open>an address that holds no object reads as a context with no field set\<close>
  "deref w a = (if a < length (heap w) then heap w ! a else Map.empty)"

definition alloc :: "proto_Context \<Rightarrow> world \<Rightarrow> nat \<times> world" where
  "alloc c w = (length (heap w), w\<lparr>heap := heap w @ [c]\<rparr>)"

definition logging_log :: "string \<Rightarrow> world \<Rightarrow> world" where
  "logging_log msg w = w\<lparr>log_lines := log_lines w @ [msg]\<rparr>"

definition logging_error :: "string \<Rightarrow> world \<Rightarrow> world" where
  "logging_error msg w = w\<lparr>log_lines := log_lines w @ [msg]\<rparr>"

text \<open>
  Modelled from the spec: \<open>bloombox.telemetry.globalContext().export()\<close> (not among the
  sources) yields the global, ambient context that exists for the lifetime of the page.
\<close>

definition globalContext_export :: "world \<Rightarrow> nat" where
  "globalContext_export w = ambient w"

text \<open>
  Modelled from the spec: \<open>bloombox.telemetry.Context.export()\<close> (not among the sources)
  renders the local context attached to an event as a \<open>proto.analytics.Context\<close> object
  of its own.
\<close>

definition Context_export :: "proto_Context \<Rightarrow> world \<Rightarrow> nat \<times> world" where
  "Context_export c w = alloc c w"

text \<open>
  Modelled from the spec: \<open>bloombox.util.proto.merge(local, global)\<close> (not among the
  sources) merges the local context onto the ambient one field by field: a field the local
  context sets overrides or adds to the ambient value, every other field is the ambient
  one. The result is a new object; neither argument is written.
\<close>

definition proto_merge :: "nat \<Rightarrow> nat \<Rightarrow> world \<Rightarrow> nat \<times> world" where
  "proto_merge local global w = alloc (deref w global ++ deref w local) w"


section \<open>Setup\<close>

definition telemetry_setup ::
  "string \<Rightarrow> string \<Rightarrow> string \<Rightarrow> string \<Rightarrow> nat \<Rightarrow> string option \<Rightarrow> world \<Rightarrow> world" where
  \<comment> \<open>\<open>bloombox.telemetry.setup\<close>; \<open>TELEMETRY_API_ENDPOINT\<close> is the default endpoint constant,
      \<open>callback\<close> names the function to call\<close>
  "telemetry_setup TELEMETRY_API_ENDPOINT partner location apikey callback endpoint w =
     (if partner = [] \<or> location = [] then
        logging_error ''Partner or location code is not defined.'' w
      else
        let w1 = w\<lparr>endpoints_telemetry := Some (or_string endpoint TELEMETRY_API_ENDPOINT)\<rparr>;
            w2 = logging_log ''Telemetry is ready for use.'' w1
        in w2\<lparr>calls := calls w2 @ [ReadyCall callback]\<rparr>)"


section \<open>Events\<close>

type_synonym payload = "string \<rightharpoonup> string"

record event =
  uuid :: string
  operation :: Routine
  ev_context :: proto_Context
  payload :: "payload option"
  occurred :: int
  successCallback :: jsval
  failureCallback :: jsval

definition BaseEvent ::
  "string \<Rightarrow> int \<Rightarrow> proto_Context \<Rightarrow> Routine \<Rightarrow> payload option \<Rightarrow> int option \<Rightarrow> string option \<Rightarrow> event" where
  \<comment> \<open>the constructor; \<open>generated\<close> is what \<open>bloombox.util.generateUUID()\<close> returns if it is
      called, \<open>clock\<close> is \<open>+(new Date)\<close>. Freezing the payload changes no value.\<close>
  "BaseEvent generated clock context method opt_payload opt_occurred opt_uuid =
     \<lparr>uuid = or_string opt_uuid generated,
      operation = method,
      ev_context = context,
      payload = opt_payload,
      occurred = or_number opt_occurred clock,
      successCallback = JsNull,
      failureCallback = JsNull\<rparr>"

text \<open>
  Modelled from the spec: \<open>rpcMethod\<close> and \<open>renderPayload\<close> are abstract in \<open>BaseEvent\<close> and
  implemented by the concrete events (not among the sources): the first resolves the
  event's operation designator, the second returns the payload attached at construction,
  or \<open>null\<close>.
\<close>

definition rpcMethod :: "event \<Rightarrow> Routine" where
  "rpcMethod this = operation this"

definition renderPayload :: "event \<Rightarrow> payload option" where
  "renderPayload this = payload this"

definition renderUUID :: "event \<Rightarrow> string" where
  "renderUUID this = uuid this"

definition renderOccurrence :: "event \<Rightarrow> int \<Rightarrow> int" where
  \<comment> \<open>\<open>this.occurred || now\<close>\<close>
  "renderOccurrence this now = (if occurred this = 0 then now else occurred this)"

definition validateContext :: "proto_Context \<Rightarrow> ContextException + unit" where
  "validateContext context =
     (if getFingerprint context = [] then
        Inl (ContextException ''Missing device fingerprint ID.'')
      else if getGroup context = [] then
        Inl (ContextException ''Missing device session ID.'')
      else Inr ())"

definition renderContext :: "event \<Rightarrow> nat \<Rightarrow> world \<Rightarrow> (ContextException + nat) \<times> world" where
  "renderContext this global w =
     (case Context_export (ev_context this) w of (local, w1) \<Rightarrow>
       (case proto_merge local global w1 of (merged, w2) \<Rightarrow>
         (case validateContext (deref w2 merged) of
            Inl e \<Rightarrow> (Inl e, w2)
          | Inr _ \<Rightarrow> (Inr merged, w2))))"

text \<open>
  \<open>generateRPC\<close>. The serialised context is stood for by the merged context's fields
  (\<open>bloombox.telemetry.Context.serializeProto\<close> is not among the sources). The binary and
  base64 encodings and the two lengths are computed only to be logged; the log line is
  kept, its attributes are not.
\<close>

definition generateRPC :: "event \<Rightarrow> world \<Rightarrow> (ContextException + TelemetryRPC) \<times> world" where
  "generateRPC this w =
     (let globalContext = globalContext_export w in
        (case renderContext this globalContext w of
           (Inl e, w1) \<Rightarrow> (Inl e, w1)
         | (Inr mergedContext, w1) \<Rightarrow>
             (let rpcMethod = rpcMethod this;
                  rpcPayload = renderPayload this;
                  uuid = renderUUID this;
                  renderedContext = SerializedContext (deref w1 mergedContext);
                  resolvedPayload = (case rpcPayload of None \<Rightarrow> Map.empty | Some p \<Rightarrow> p);
                  body = (map_option PayloadValue \<circ> resolvedPayload)
                           (''context'' \<mapsto> renderedContext);
                  w2 = logging_log ''Preparing RPC.'' w1
              in (Inr \<lparr>rpc_uuid = uuid, rpc_method = rpcMethod, rpc_body = body,
                       rpc_context = mergedContext\<rparr>, w2))))"

text \<open>
  Modelled from the spec: \<open>bloombox.telemetry.enqueue(rpc)\<close> (not among the sources) hands
  the request to the dispatch queue: it prepares a queued request whose identifier is
  copied from the originating event's request, and enqueues it unconditionally with an
  assigned numeric priority. The identifier is passed to \<open>prepareQueuedEvent\<close>, so no
  identifier is generated there (the first argument is not used).
\<close>

definition telemetry_enqueue :: "int \<Rightarrow> TelemetryRPC \<Rightarrow> world \<Rightarrow> world" where
  "telemetry_enqueue priority rpc w =
     (let ev = prepareQueuedEvent [] rpc (Some (rpc_uuid rpc)) in
        (case enqueue priority ev (eventQueue w, log_lines w) of
           (q, lg) \<Rightarrow> w\<lparr>eventQueue := q, log_lines := lg\<rparr>))"

definition dispatch ::
  "int \<Rightarrow> jsval \<Rightarrow> jsval \<Rightarrow> event \<times> world \<Rightarrow> (ContextException + unit) \<times> event \<times> world" where
  \<comment> \<open>\<open>priority\<close> is the priority the queue assigns; the result is the exception
      thrown, if any, with the event and the world as the call leaves them\<close>
  "dispatch priority success failure st =
     (case st of (this, w) \<Rightarrow>
        let this1 = this\<lparr>successCallback := or_null success\<rparr>;
            this2 = this1\<lparr>failureCallback := or_null failure\<rparr>
        in (case generateRPC this2 w of
              (Inl e, w1) \<Rightarrow> (Inl e, this2, w1)
            | (Inr rpc, w1) \<Rightarrow> (Inr (), this2, telemetry_enqueue priority rpc w1)))"

definition send :: "int \<Rightarrow> event \<times> world \<Rightarrow> (ContextException + unit) \<times> event \<times> world" where
  "send priority st = dispatch priority JsNull JsNull st"

text \<open>
  The trampolines. The first argument is the room left on the call stack, counted in
  nested trampoline calls. The slot is cleared by the statement after the call of the
  callback, so it is cleared only when that call returns: an exception of the callback
  leaves the trampoline before the slot is cleared, and a callback that calls the
  trampoline again finds the slot still set.
\<close>

fun onSuccess ::
      "nat \<Rightarrow> OperationStatus \<Rightarrow> event \<times> world \<Rightarrow> (js_error + unit) \<times> event \<times> world"
  and onFailure ::
      "nat \<Rightarrow> OperationStatus \<Rightarrow> TelemetryError option \<Rightarrow> int option \<Rightarrow> event \<times> world \<Rightarrow>
         (js_error + unit) \<times> event \<times> world"
where
  "onSuccess 0 status st = (Inl RangeError, st)"
| "onSuccess (Suc stack) status (this, w) =
     (case (if truthy (successCallback this) \<and> is_function (successCallback this) then
              (case successCallback this of
                 JsFunction f \<Rightarrow>
                   (case behaviours w f of
                      Returns \<Rightarrow>
                        (Inr (), this, w\<lparr>calls := calls w @ [SuccessCall f status]\<rparr>)
                    | Throws \<Rightarrow>
                        (Inl (CallbackError f), this,
                         w\<lparr>calls := calls w @ [SuccessCall f status]\<rparr>)
                    | Calls (OnSuccess status') \<Rightarrow>
                        onSuccess stack status'
                          (this, w\<lparr>calls := calls w @ [SuccessCall f status]\<rparr>)
                    | Calls (OnFailure op error code) \<Rightarrow>
                        onFailure stack op error code
                          (this, w\<lparr>calls := calls w @ [SuccessCall f status]\<rparr>))
               | _ \<Rightarrow> (Inr (), this, w))
            else (Inr (), this, w)) of
        (Inl e, this', w') \<Rightarrow> (Inl e, this', w')
      | (Inr _, this', w') \<Rightarrow> (Inr (), this'\<lparr>successCallback := JsNull\<rparr>, w'))"
| "onFailure 0 op error code st = (Inl RangeError, st)"
| "onFailure (Suc stack) op error code (this, w) =
     (case (if truthy (failureCallback this) \<and> is_function (failureCallback this) then
              (case failureCallback this of
                 JsFunction f \<Rightarrow>
                   (case behaviours w f of
                      Returns \<Rightarrow>
                        (Inr (), this, w\<lparr>calls := calls w @ [FailureCall f op error code]\<rparr>)
                    | Throws \<Rightarrow>
                        (Inl (CallbackError f), this,
                         w\<lparr>calls := calls w @ [FailureCall f op error code]\<rparr>)
                    | Calls (OnSuccess status') \<Rightarrow>
                        onSuccess stack status'
                          (this, w\<lparr>calls := calls w @ [FailureCall f op error code]\<rparr>)
                    | Calls (OnFailure op' error' code') \<Rightarrow>
                        onFailure stack op' error' code'
                          (this, w\<lparr>calls := calls w @ [FailureCall f op error code]\<rparr>))
               | _ \<Rightarrow> (Inr (), this, w))
            else (Inr (), this, w)) of
        (Inl e, this', w') \<Rightarrow> (Inl e, this', w')
      | (Inr _, this', w') \<Rightarrow> (Inr (), this'\<lparr>failureCallback := JsNull\<rparr>, w'))"

text \<open>
  What the transport, or any other caller, may do with an event after it was built: any
  sequence of calls of the two trampolines, and of \<open>dispatch\<close> and \<open>send\<close>. The
  trampolines run as methods of the event (\<open>this\<close> is the event), each call with the same
  room on the stack. An exception goes to the caller, who goes on with the next call; the
  event and the world stay as the call left them.
\<close>

fun run_trampoline ::
  "nat \<Rightarrow> trampoline \<Rightarrow> event \<times> world \<Rightarrow> (js_error + unit) \<times> event \<times> world" where
  "run_trampoline stack (OnSuccess status) st = onSuccess stack status st"
| "run_trampoline stack (OnFailure op error code) st = onFailure stack op error code st"

fun run_trampolines :: "nat \<Rightarrow> trampoline list \<Rightarrow> event \<times> world \<Rightarrow> event \<times> world" where
  "run_trampolines stack [] st = st"
| "run_trampolines stack (t # ts) st = run_trampolines stack ts (snd (run_trampoline stack t st))"

datatype method_call =
    Dispatch int jsval jsval
  | Send int
  | Trampoline trampoline

fun run_method :: "nat \<Rightarrow> method_call \<Rightarrow> event \<times> world \<Rightarrow> event \<times> world" where
  "run_method stack (Dispatch priority success failure) st =
     snd (dispatch priority success failure st)"
| "run_method stack (Send priority) st = snd (send priority st)"
| "run_method stack (Trampoline t) st = snd (run_trampoline stack t st)"

fun run_methods :: "nat \<Rightarrow> method_call list \<Rightarrow> event \<times> world \<Rightarrow> event \<times> world" where
  "run_methods stack [] st = st"
| "run_methods stack (m # ms) st = run_methods stack ms (run_method stack m st)"











section \<open>Example states\<close>

text \<open>
  A page whose ambient context has a fingerprint and a group, the same page with an empty
  ambient context, and an event built with no payload, timestamp or identifier of its own.
  Function 9 throws when called, function 10 calls \<open>onSuccess\<close> again; every other
  function returns.
\<close>

definition example_world :: world where
  "example_world =
     \<lparr>heap = [[''fingerprint'' \<mapsto> ''device-1'', ''group'' \<mapsto> ''session-1'',
               ''partner'' \<mapsto> ''acme'']],
      ambient = 0, eventQueue = EventQueue, log_lines = [], endpoints_telemetry = None,
      calls = [],
      behaviours = (\<lambda>g. if g = 9 then Throws else if g = 10 then Calls (OnSuccess OK)
                        else Returns)\<rparr>"

definition bare_world :: world where
  "bare_world = example_world\<lparr>heap := [Map.empty]\<rparr>"

definition example_event :: event where
  "example_event =
     BaseEvent ''generated-uuid'' 1000 [''group'' \<mapsto> ''session-2''] ''event'' None None None"


section \<open>The event queue: dequeue\<close>

lemma dequeue_while_step:
  "n > 0 \<Longrightarrow> dequeue_while mapper n (q, s) =
     dequeue_while mapper (n - 1)
       (q\<lparr>queue := snd (pq_dequeue (queue q))\<rparr>, mapper (fst (pq_dequeue (queue q))) s)"
  by (simp add: case_prod_unfold)

text \<open>
  The loop runs as often as the count says, whatever the queue holds: the mapper sees the
  first entries of the queue in order, and \<open>undefined\<close> for every round the queue could
  not serve.
\<close>

lemma dequeue_while_recording:
  "dequeue_while recording_mapper n (q, seen) =
     (q\<lparr>queue := drop (nat n) (queue q)\<rparr>,
      seen @ map (Some \<circ> snd) (take (nat n) (queue q))
           @ replicate (nat n - length (queue q)) None)"
proof (induction "nat n" arbitrary: n q seen)
  case 0
  then have "n \<le> 0" by simp
  then show ?case using 0 by simp
next
  case (Suc k)
  then have pos: "n > 0" and k: "k = nat (n - 1)" by linarith+
  have n: "nat n = Suc k" using Suc.hyps(2) by simp
  show ?case
  proof (cases "queue q")
    case Nil
    then show ?thesis
      using Suc.hyps(1)[OF k, of "q\<lparr>queue := []\<rparr>" "seen @ [None]"] pos n k
      by (simp add: dequeue_while_step recording_mapper_def
          del: dequeue_while.simps flip: replicate_append_same)
  next
    case (Cons pv rest)
    obtain p v where pv: "pv = (p, v)" by (cases pv)
    show ?thesis
      using Suc.hyps(1)[OF k, of "q\<lparr>queue := rest\<rparr>" "seen @ [Some v]"] pos n k Cons pv
      by (simp add: dequeue_while_step recording_mapper_def del: dequeue_while.simps)
  qed
qed

lemma dequeue_enough_items:
  "0 \<le> amt \<Longrightarrow> nat amt \<le> length (queue q) \<Longrightarrow>
   dequeue BATCH_SIZE recording_mapper (Some amt) (q, []) =
     (q\<lparr>queue := drop (nat amt) (queue q)\<rparr>, map (Some \<circ> snd) (take (nat amt) (queue q)))"
  by (simp add: dequeue_def dequeue_while_recording del: dequeue_while.simps)

lemma dequeue_fewer_items:
  "length (queue q) < nat amt \<Longrightarrow>
   dequeue BATCH_SIZE recording_mapper (Some amt) (q, []) =
     (q\<lparr>queue := []\<rparr>,
      map (Some \<circ> snd) (queue q) @ replicate (nat amt - length (queue q)) None)"
  by (simp add: dequeue_def dequeue_while_recording del: dequeue_while.simps)

lemma set_pq_enqueue: "set (pq_enqueue p v q) = insert (p, v) (set q)"
  by (induction q rule: pq_enqueue.induct) auto

lemma pq_enqueue_sorted: "sorted (map fst q) \<Longrightarrow> sorted (map fst (pq_enqueue p v q))"
  by (induction q rule: pq_enqueue.induct) (auto simp: set_pq_enqueue)

text \<open>
  C1. The claim: when the queue holds fewer than \<open>amount\<close> items, \<open>dequeue(mapper, amount)\<close>
  removes what is there and stops, so that a dequeue on an empty queue processes nothing.
  The code does not look at the queue's size: on the empty queue, \<open>dequeue(mapper, 3)\<close>
  invokes the mapper three times, each time with \<open>undefined\<close>.
\<close>

theorem dequeue_empty_queue_invokes_mapper:
  "dequeue BATCH_SIZE recording_mapper (Some 3) (EventQueue, []) =
     (EventQueue, [None, None, None])"
  by (simp add: dequeue_def EventQueue_def recording_mapper_def)


section \<open>Context validation\<close>

lemma renderContext_cases:
  assumes "Context_export (ev_context this) w = (local, w1)"
      and "proto_merge local global w1 = (merged, w2)"
  shows "renderContext this global w =
           (if getFingerprint (deref w2 merged) = [] then
              (Inl (ContextException ''Missing device fingerprint ID.''), w2)
            else if getGroup (deref w2 merged) = [] then
              (Inl (ContextException ''Missing device session ID.''), w2)
            else (Inr merged, w2))"
  using assms by (simp add: renderContext_def validateContext_def)

lemma generateRPC_Inl:
  "renderContext this (globalContext_export w) w = (Inl e, w1) \<Longrightarrow>
   generateRPC this w = (Inl e, w1)"
  by (simp add: generateRPC_def)

lemma generateRPC_Inr:
  "renderContext this (globalContext_export w) w = (Inr merged, w1) \<Longrightarrow>
   generateRPC this w =
     (Inr \<lparr>rpc_uuid = renderUUID this, rpc_method = rpcMethod this,
           rpc_body = (map_option PayloadValue \<circ>
                         (case renderPayload this of None \<Rightarrow> Map.empty | Some p \<Rightarrow> p))
                      (''context'' \<mapsto> SerializedContext (deref w1 merged)),
           rpc_context = merged\<rparr>,
      logging_log ''Preparing RPC.'' w1)"
  by (simp add: generateRPC_def)

text \<open>
  C3. \<open>renderContext\<close>, and with it \<open>generateRPC\<close>, raises a \<open>ContextException\<close> if and
  only if the merged context has an empty fingerprint or an empty group; when both are
  present, no error is raised and the merged context is returned.
\<close>

theorem renderContext_raises_iff_missing:
  assumes "Context_export (ev_context this) w = (local, w1)"
      and "proto_merge local global w1 = (merged, w2)"
  shows "((\<exists>e. validateContext c = Inl e) \<longleftrightarrow> (getFingerprint c = [] \<or> getGroup c = []))
       \<and> ((\<exists>e. fst (renderContext this global w) = Inl e) \<longleftrightarrow>
            (getFingerprint (deref w2 merged) = [] \<or> getGroup (deref w2 merged) = []))
       \<and> (getFingerprint (deref w2 merged) \<noteq> [] \<and> getGroup (deref w2 merged) \<noteq> [] \<longrightarrow>
            renderContext this global w = (Inr merged, w2))
       \<and> (global = globalContext_export w \<longrightarrow>
           ((\<exists>e. fst (generateRPC this w) = Inl e) \<longleftrightarrow>
              (getFingerprint (deref w2 merged) = [] \<or> getGroup (deref w2 merged) = [])))"
proof -
  note rc = renderContext_cases[OF assms]
  have a: "(\<exists>e. fst (renderContext this global w) = Inl e) \<longleftrightarrow>
            (getFingerprint (deref w2 merged) = [] \<or> getGroup (deref w2 merged) = [])"
    by (simp add: rc)
  have b: "getFingerprint (deref w2 merged) \<noteq> [] \<and> getGroup (deref w2 merged) \<noteq> [] \<longrightarrow>
            renderContext this global w = (Inr merged, w2)"
    by (simp add: rc)
  have c: "(\<exists>e. fst (generateRPC this w) = Inl e) \<longleftrightarrow>
              (getFingerprint (deref w2 merged) = [] \<or> getGroup (deref w2 merged) = [])"
    if g: "global = globalContext_export w"
  proof (cases "getFingerprint (deref w2 merged) = [] \<or> getGroup (deref w2 merged) = []")
    case True
    then have "\<exists>e. renderContext this (globalContext_export w) w = (Inl e, w2)"
      using rc g by (cases "getFingerprint (deref w2 merged) = []") auto
    then obtain e where "renderContext this (globalContext_export w) w = (Inl e, w2)" ..
    then show ?thesis using True by (simp add: generateRPC_Inl)
  next
    case False
    then have "renderContext this (globalContext_export w) w = (Inr merged, w2)"
      using rc g by auto
    then show ?thesis using False by (simp add: generateRPC_Inr)
  qed
  have v: "(\<exists>e. validateContext c = Inl e) \<longleftrightarrow> (getFingerprint c = [] \<or> getGroup c = [])"
    by (simp add: validateContext_def)
  show ?thesis using v a b c by blast
qed

theorem renderContext_raises_iff_missing_witness:
  "(\<exists>e. fst (renderContext example_event 0 bare_world) = Inl e)
   \<and> (\<exists>e. fst (generateRPC example_event bare_world) = Inl e)
   \<and> fst (renderContext example_event 0 example_world) = Inr 2
   \<and> \<not> (\<exists>e. fst (generateRPC example_event example_world) = Inl e)"
proof -
  have b1: "Context_export (ev_context example_event) bare_world =
             (1, bare_world\<lparr>heap := [Map.empty, [''group'' \<mapsto> ''session-2'']]\<rparr>)"
    by (simp add: Context_export_def alloc_def bare_world_def example_world_def
        example_event_def BaseEvent_def)
  have b2: "proto_merge 1 0 (bare_world\<lparr>heap := [Map.empty, [''group'' \<mapsto> ''session-2'']]\<rparr>) =
             (2, bare_world\<lparr>heap := [Map.empty, [''group'' \<mapsto> ''session-2''],
                                       [''group'' \<mapsto> ''session-2'']]\<rparr>)"
    by (simp add: proto_merge_def alloc_def deref_def bare_world_def example_world_def)
  have b3: "getFingerprint (deref (bare_world\<lparr>heap := [Map.empty, [''group'' \<mapsto> ''session-2''],
                                       [''group'' \<mapsto> ''session-2'']]\<rparr>) 2) = []"
    by (simp add: getFingerprint_def deref_def)
  have b4: "globalContext_export bare_world = 0"
    by (simp add: globalContext_export_def bare_world_def example_world_def)
  have e1: "Context_export (ev_context example_event) example_world =
             (1, example_world\<lparr>heap := heap example_world @ [[''group'' \<mapsto> ''session-2'']]\<rparr>)"
    by (simp add: Context_export_def alloc_def example_world_def
        example_event_def BaseEvent_def)
  have e2: "proto_merge 1 0
              (example_world\<lparr>heap := heap example_world @ [[''group'' \<mapsto> ''session-2'']]\<rparr>) =
             (2, example_world\<lparr>heap := heap example_world @ [[''group'' \<mapsto> ''session-2''],
                  [''fingerprint'' \<mapsto> ''device-1'', ''group'' \<mapsto> ''session-1'',
                   ''partner'' \<mapsto> ''acme'', ''group'' \<mapsto> ''session-2'']]\<rparr>)"
    by (simp add: proto_merge_def alloc_def deref_def example_world_def)
  have e3: "getFingerprint (deref (example_world\<lparr>heap := heap example_world @
                 [[''group'' \<mapsto> ''session-2''],
                  [''fingerprint'' \<mapsto> ''device-1'', ''group'' \<mapsto> ''session-1'',
                   ''partner'' \<mapsto> ''acme'', ''group'' \<mapsto> ''session-2'']]\<rparr>) 2) \<noteq> []"
     "getGroup (deref (example_world\<lparr>heap := heap example_world @
                 [[''group'' \<mapsto> ''session-2''],
                  [''fingerprint'' \<mapsto> ''device-1'', ''group'' \<mapsto> ''session-1'',
                   ''partner'' \<mapsto> ''acme'', ''group'' \<mapsto> ''session-2'']]\<rparr>) 2) \<noteq> []"
    by (simp_all add: getFingerprint_def getGroup_def deref_def example_world_def)
  have e4: "globalContext_export example_world = 0"
    by (simp add: globalContext_export_def example_world_def)
  show ?thesis
    using renderContext_raises_iff_missing[OF b1 b2] renderContext_raises_iff_missing[OF e1 e2]
      b3 b4 e3 e4
    by simp
qed


section \<open>What rendering a context and generating a request change\<close>

lemma renderContext_world:
  "snd (renderContext this global w) =
     w\<lparr>heap := heap w @ [ev_context this,
          deref (w\<lparr>heap := heap w @ [ev_context this]\<rparr>) global ++ ev_context this]\<rparr>"
  by (simp add: renderContext_def Context_export_def proto_merge_def alloc_def deref_def
      split: sum.splits)

lemma renderContext_result:
  "renderContext this global w = (Inr merged, w') \<Longrightarrow> merged = Suc (length (heap w))"
  by (auto simp add: renderContext_def Context_export_def proto_merge_def alloc_def
      split: sum.splits)

lemma generateRPC_world:
  "snd (generateRPC this w) = snd (renderContext this (globalContext_export w) w)
   \<or> snd (generateRPC this w) =
      logging_log ''Preparing RPC.'' (snd (renderContext this (globalContext_export w) w))"
  by (cases "renderContext this (globalContext_export w) w")
     (auto simp add: generateRPC_def split: sum.splits)

lemma generateRPC_eventQueue: "eventQueue (snd (generateRPC this w)) = eventQueue w"
  using generateRPC_world[of this w]
  by (auto simp add: renderContext_world logging_log_def)

lemma renderContext_callbacks:
  "renderContext (this\<lparr>successCallback := a, failureCallback := b\<rparr>) global w =
   renderContext this global w"
  by (simp add: renderContext_def)

lemma generateRPC_callbacks:
  "generateRPC (this\<lparr>successCallback := a, failureCallback := b\<rparr>) w = generateRPC this w"
proof (cases "renderContext this (globalContext_export w) w")
  case (Pair r w1)
  then show ?thesis
  proof (cases r)
    case (Inl e)
    with Pair show ?thesis
      by (simp add: generateRPC_Inl renderContext_callbacks)
  next
    case (Inr merged)
    with Pair show ?thesis
      by (simp add: generateRPC_Inr renderContext_callbacks rpcMethod_def renderPayload_def
          renderUUID_def)
  qed
qed

lemma dispatch_Inl:
  "generateRPC this w = (Inl e, w1) \<Longrightarrow>
   dispatch priority success failure (this, w) =
     (Inl e, this\<lparr>successCallback := or_null success, failureCallback := or_null failure\<rparr>, w1)"
  by (simp add: dispatch_def generateRPC_callbacks)

lemma dispatch_Inr:
  "generateRPC this w = (Inr rpc, w1) \<Longrightarrow>
   dispatch priority success failure (this, w) =
     (Inr (), this\<lparr>successCallback := or_null success, failureCallback := or_null failure\<rparr>,
      telemetry_enqueue priority rpc w1)"
  by (simp add: dispatch_def generateRPC_callbacks)

lemma example_renderContext:
  "renderContext example_event 0 example_world =
     (Inr 2, example_world\<lparr>heap := heap example_world @ [[''group'' \<mapsto> ''session-2''],
         [''fingerprint'' \<mapsto> ''device-1'', ''group'' \<mapsto> ''session-1'',
          ''partner'' \<mapsto> ''acme'', ''group'' \<mapsto> ''session-2'']]\<rparr>)"
  by (simp add: renderContext_def Context_export_def proto_merge_def alloc_def deref_def
      validateContext_def getFingerprint_def getGroup_def example_world_def example_event_def
      BaseEvent_def)



lemma example_dispatch_result:
  "fst (dispatch 0 (JsFunction 7) (JsFunction 8) (example_event, example_world)) = Inr ()"
proof -
  have g: "globalContext_export example_world = 0"
    by (simp add: globalContext_export_def example_world_def)
  have r: "renderContext example_event (globalContext_export example_world) example_world =
     (Inr 2, example_world\<lparr>heap := heap example_world @ [[''group'' \<mapsto> ''session-2''],
         [''fingerprint'' \<mapsto> ''device-1'', ''group'' \<mapsto> ''session-1'',
          ''partner'' \<mapsto> ''acme'', ''group'' \<mapsto> ''session-2'']]\<rparr>)"
    unfolding g by (rule example_renderContext)
  show ?thesis
    unfolding dispatch_Inr[OF generateRPC_Inr[OF r]] by simp
qed


section \<open>Dispatch\<close>

text \<open>
  C4. When generating the request fails (the merged context does not validate),
  \<open>dispatch\<close> passes the exception on to its caller and the dispatch queue is as it was
  before the call: nothing is enqueued.
\<close>

theorem dispatch_failure_enqueues_nothing:
  assumes "fst (generateRPC this w) = Inl e"
  shows "fst (dispatch priority success failure (this, w)) = Inl e
       \<and> eventQueue (snd (snd (dispatch priority success failure (this, w)))) = eventQueue w"
proof -
  obtain w1 where g: "generateRPC this w = (Inl e, w1)"
    using assms by (cases "generateRPC this w") simp
  have "eventQueue w1 = eventQueue w"
    using generateRPC_eventQueue[of this w] g by simp
  then show ?thesis by (simp add: dispatch_Inl[OF g])
qed

theorem dispatch_failure_enqueues_nothing_witness:
  "fst (dispatch 5 (JsFunction 1) (JsFunction 2) (example_event, bare_world))
     = Inl (ContextException ''Missing device fingerprint ID.'')
   \<and> eventQueue (snd (snd (dispatch 5 (JsFunction 1) (JsFunction 2) (example_event, bare_world))))
     = EventQueue"
proof -
  have g: "fst (generateRPC example_event bare_world)
             = Inl (ContextException ''Missing device fingerprint ID.'')"
    by (simp add: generateRPC_def renderContext_def Context_export_def proto_merge_def
        alloc_def deref_def validateContext_def getFingerprint_def globalContext_export_def
        bare_world_def example_world_def example_event_def BaseEvent_def)
  have q: "eventQueue bare_world = EventQueue"
    by (simp add: bare_world_def example_world_def)
  show ?thesis
    using dispatch_failure_enqueues_nothing[OF g, of 5 "JsFunction 1" "JsFunction 2"] q
    by simp
qed


section \<open>The context merge\<close>

text \<open>
  C5. The context that \<open>renderContext\<close> returns is the field-wise merge of the event's
  local context onto the ambient one: a field the local context sets has the local value,
  whether or not the ambient context sets it too, and every other field is as in the
  ambient context.
\<close>

theorem renderContext_merges_local_onto_ambient:
  assumes "global < length (heap w)"
      and "renderContext this global w = (Inr merged, w')"
  shows "\<forall>field. deref w' merged field =
           (case ev_context this field of
              Some v \<Rightarrow> Some v
            | None \<Rightarrow> deref w global field)"
proof -
  have m: "merged = Suc (length (heap w))"
    using assms(2) by (rule renderContext_result)
  have w': "w' = snd (renderContext this global w)"
    using assms(2) by simp
  have "deref w' merged = deref w global ++ ev_context this"
    using assms(1) unfolding w' m renderContext_world
    by (simp add: deref_def nth_append)
  then show ?thesis
    by (simp add: map_add_def)
qed

theorem renderContext_merges_local_onto_ambient_witness:
  "deref (snd (renderContext example_event 0 example_world)) 2 ''group'' = Some ''session-2''
   \<and> deref (snd (renderContext example_event 0 example_world)) 2 ''fingerprint'' = Some ''device-1''
   \<and> deref (snd (renderContext example_event 0 example_world)) 2 ''partner'' = Some ''acme''
   \<and> deref (snd (renderContext example_event 0 example_world)) 2 ''version'' = None"
proof -
  have g: "0 < length (heap example_world)"
    by (simp add: example_world_def)
  have r: "renderContext example_event 0 example_world
             = (Inr 2, snd (renderContext example_event 0 example_world))"
    by (simp add: example_renderContext)
  have l: "ev_context example_event = [''group'' \<mapsto> ''session-2'']"
    by (simp add: example_event_def BaseEvent_def)
  have a: "deref example_world 0 =
            [''fingerprint'' \<mapsto> ''device-1'', ''group'' \<mapsto> ''session-1'', ''partner'' \<mapsto> ''acme'']"
    by (simp add: deref_def example_world_def)
  show ?thesis
    using renderContext_merges_local_onto_ambient[OF g r] l a
    by simp
qed

text \<open>
  C6. \<open>renderContext\<close>, also when called by \<open>generateRPC\<close>, leaves the ambient context
  object unchanged: after the call it holds the same fields with the same values, and it
  is still the ambient context.
\<close>

theorem renderContext_leaves_ambient_unchanged:
  assumes "global < length (heap w)"
  shows "deref (snd (renderContext this global w)) global = deref w global
       \<and> (global = globalContext_export w \<longrightarrow>
            globalContext_export (snd (generateRPC this w)) = global
          \<and> deref (snd (generateRPC this w)) global = deref w global)"
proof -
  have a: "deref (snd (renderContext this global w)) global = deref w global"
    using assms unfolding renderContext_world by (simp add: deref_def nth_append)
  have b: "globalContext_export (snd (generateRPC this w)) = global
          \<and> deref (snd (generateRPC this w)) global = deref w global"
    if g: "global = globalContext_export w"
    using generateRPC_world[of this w] a assms g
    by (auto simp add: renderContext_world logging_log_def globalContext_export_def deref_def)
  show ?thesis using a b by blast
qed

theorem renderContext_leaves_ambient_unchanged_witness:
  "deref (snd (renderContext example_event 0 example_world)) 0 ''group'' = Some ''session-1''
   \<and> deref (snd (generateRPC example_event example_world)) 0 ''group'' = Some ''session-1''"
proof -
  have g: "0 < length (heap example_world)"
    by (simp add: example_world_def)
  have e: "0 = globalContext_export example_world"
    by (simp add: globalContext_export_def example_world_def)
  have a: "deref example_world 0 ''group'' = Some ''session-1''"
    by (simp add: deref_def example_world_def)
  show ?thesis
    using renderContext_leaves_ambient_unchanged[OF g, of example_event] e a
    by simp
qed


section \<open>The identifier of an event\<close>

lemma trampolines_frame:
  "uuid (fst (snd (onSuccess stack status st))) = uuid (fst st)
   \<and> behaviours (snd (snd (onSuccess stack status st))) = behaviours (snd st)
   \<and> uuid (fst (snd (onFailure stack op error code st))) = uuid (fst st)
   \<and> behaviours (snd (snd (onFailure stack op error code st))) = behaviours (snd st)"
proof (induction stack arbitrary: status op error code st)
  case 0
  show ?case by simp
next
  case (Suc stack)
  obtain this w where st: "st = (this, w)" by (cases st)
  have Ds: "uuid a = uuid (fst st') \<and> behaviours b = behaviours (snd st')"
    if "onSuccess stack status' st' = (r, a, b)" for status' st' r a b
    using Suc.IH[of status' st'] that by simp
  have Df: "uuid a = uuid (fst st') \<and> behaviours b = behaviours (snd st')"
    if "onFailure stack op' error' code' st' = (r, a, b)" for op' error' code' st' r a b
    using Suc.IH[of _ st' op' error' code'] that by simp
  have s: "uuid (fst (snd (onSuccess (Suc stack) status st))) = uuid (fst st)
           \<and> behaviours (snd (snd (onSuccess (Suc stack) status st))) = behaviours (snd st)"
    unfolding st
    by (auto split: jsval.splits behaviour.splits trampoline.splits sum.splits prod.splits
        dest!: Ds Df)
  have f: "uuid (fst (snd (onFailure (Suc stack) op error code st))) = uuid (fst st)
           \<and> behaviours (snd (snd (onFailure (Suc stack) op error code st))) = behaviours (snd st)"
    unfolding st
    by (auto split: jsval.splits behaviour.splits trampoline.splits sum.splits prod.splits
        dest!: Ds Df)
  show ?case using s f by simp
qed

lemma dispatch_event:
  "fst (snd (dispatch priority success failure (this, w))) =
     this\<lparr>successCallback := or_null success, failureCallback := or_null failure\<rparr>"
proof (cases "generateRPC this w")
  case (Pair r w1)
  then show ?thesis
    by (cases r) (simp_all add: dispatch_Inl dispatch_Inr)
qed

lemma run_trampoline_uuid: "uuid (fst (snd (run_trampoline stack t st))) = uuid (fst st)"
  by (cases t) (simp_all add: trampolines_frame)

lemma run_method_uuid: "uuid (fst (run_method stack m st)) = uuid (fst st)"
proof (cases st)
  case (Pair this w)
  then show ?thesis
    by (cases m) (simp_all add: send_def dispatch_event run_trampoline_uuid)
qed

lemma run_methods_uuid: "uuid (fst (run_methods stack ms st)) = uuid (fst st)"
  by (induction ms arbitrary: st) (simp_all add: run_method_uuid)


lemma generateRPC_uuid: "generateRPC this w = (Inr rpc, w1) \<Longrightarrow> rpc_uuid rpc = renderUUID this"
  by (cases "renderContext this (globalContext_export w) w")
     (auto simp add: generateRPC_def Let_def split: sum.splits)

lemma telemetry_enqueue_queue:
  "queue (eventQueue (telemetry_enqueue priority rpc w)) =
     pq_enqueue priority \<lparr>qe_rpc = rpc, qe_uuid = rpc_uuid rpc\<rparr> (queue (eventQueue w))"
  by (simp add: telemetry_enqueue_def enqueue_def prepareQueuedEvent_def)

text \<open>
  C7. \<open>renderUUID\<close> returns the same identifier after any sequence of calls of the
  event's methods, and when a dispatch succeeds the request it puts on the queue is keyed
  by that identifier.
\<close>

theorem renderUUID_stable_and_keys_queued_request:
  "renderUUID this = uuid this
   \<and> renderUUID (fst (run_methods stack ms (this, w))) = renderUUID this
   \<and> (dispatch priority success failure (this, w) = (Inr (), this', w') \<longrightarrow>
        renderUUID this' = renderUUID this
      \<and> (\<exists>rpc. fst (generateRPC this w) = Inr rpc
             \<and> rpc_uuid rpc = renderUUID this
             \<and> queue (eventQueue w') =
                 pq_enqueue priority \<lparr>qe_rpc = rpc, qe_uuid = renderUUID this\<rparr>
                   (queue (eventQueue w))))"
proof -
  have a: "renderUUID (fst (run_methods stack ms (this, w))) = renderUUID this"
    using run_methods_uuid[of stack ms "(this, w)"] by (simp add: renderUUID_def)
  have b: "renderUUID this' = renderUUID this
      \<and> (\<exists>rpc. fst (generateRPC this w) = Inr rpc
             \<and> rpc_uuid rpc = renderUUID this
             \<and> queue (eventQueue w') =
                 pq_enqueue priority \<lparr>qe_rpc = rpc, qe_uuid = renderUUID this\<rparr>
                   (queue (eventQueue w)))"
    if d: "dispatch priority success failure (this, w) = (Inr (), this', w')"
  proof -
    obtain r w1 where g: "generateRPC this w = (r, w1)"
      by (cases "generateRPC this w")
    obtain rpc where r: "r = Inr rpc"
      using d g by (cases r) (simp_all add: dispatch_Inl)
    have u: "rpc_uuid rpc = renderUUID this"
      using g r by (simp add: generateRPC_uuid)
    have this': "this' = this\<lparr>successCallback := or_null success, failureCallback := or_null failure\<rparr>"
      and w': "w' = telemetry_enqueue priority rpc w1"
      using d g r by (simp_all add: dispatch_Inr)
    have q: "eventQueue w1 = eventQueue w"
      using generateRPC_eventQueue[of this w] g by simp
    show ?thesis
      using g r u q by (simp add: this' w' telemetry_enqueue_queue renderUUID_def)
  qed
  show ?thesis using a b by (simp add: renderUUID_def)
qed

theorem renderUUID_stable_and_keys_queued_request_witness:
  "renderUUID (fst (run_methods 100
       [Dispatch 0 (JsFunction 7) (JsFunction 8), Trampoline (OnSuccess OK), Send 3]
       (example_event, example_world))) = ''generated-uuid''
   \<and> map (\<lambda>(p, ev). qe_uuid ev)
        (queue (eventQueue (snd (snd
           (dispatch 0 (JsFunction 7) (JsFunction 8) (example_event, example_world))))))
     = [''generated-uuid'']"
proof -
  obtain this' w' where d:
    "dispatch 0 (JsFunction 7) (JsFunction 8) (example_event, example_world) = (Inr (), this', w')"
    using example_dispatch_result
    by (cases "dispatch 0 (JsFunction 7) (JsFunction 8) (example_event, example_world)") auto
  have u: "renderUUID example_event = ''generated-uuid''"
    by (simp add: renderUUID_def example_event_def BaseEvent_def or_string_def)
  have q: "queue (eventQueue example_world) = []"
    by (simp add: example_world_def EventQueue_def)
  have "renderUUID (fst (run_methods 100
       [Dispatch 0 (JsFunction 7) (JsFunction 8), Trampoline (OnSuccess OK), Send 3]
       (example_event, example_world))) = ''generated-uuid''
     \<and> map (\<lambda>(p, ev). qe_uuid ev) (queue (eventQueue w')) = [''generated-uuid'']"
    using renderUUID_stable_and_keys_queued_request
      [where stack = 100 and ms = "[Dispatch 0 (JsFunction 7) (JsFunction 8), Trampoline (OnSuccess OK), Send 3]"
         and this = example_event and w = example_world and priority = 0
         and success = "JsFunction 7" and failure = "JsFunction 8"
         and this' = this' and w' = w'] d u q
    by auto
  then show ?thesis
    by (simp only: d snd_conv)
qed



section \<open>Callback delivery\<close>









text \<open>
  A trampoline whose callback throws: the callback is called, the exception goes to the
  caller and the slot stays as it was, so the next call of the trampoline calls the
  callback again. A callback that calls its own trampoline is called until the stack is
  full.
\<close>

lemma onSuccess_throwing_callback:
  assumes "0 < stack" and "successCallback this = JsFunction g" and "behaviours w g = Throws"
  shows "onSuccess stack status (this, w) =
     (Inl (CallbackError g), this, w\<lparr>calls := calls w @ [SuccessCall g status]\<rparr>)"
proof -
  obtain n where n: "stack = Suc n"
    using assms(1) by (cases stack) simp_all
  show ?thesis
    using assms(2,3) unfolding n by simp
qed

lemma throwing_callback_invoked_again:
  "calls (snd (run_trampolines 100 [OnSuccess OK, OnSuccess ERROR]
       (example_event\<lparr>successCallback := JsFunction 9\<rparr>, example_world)))
   = [SuccessCall 9 OK, SuccessCall 9 ERROR]"
  by (simp add: onSuccess_throwing_callback example_world_def
      del: onSuccess.simps onFailure.simps)

lemma reentrant_callback_invoked_again:
  "calls (snd (run_trampolines (Suc (Suc (Suc 0))) [OnSuccess ERROR]
       (example_event\<lparr>successCallback := JsFunction 10\<rparr>, example_world)))
   = [SuccessCall 10 ERROR, SuccessCall 10 OK, SuccessCall 10 OK]"
  by (simp add: example_world_def)
















section \<open>The occurrence timestamp\<close>

text \<open>
  C8, as stated, fails: an explicit timestamp of 0 is replaced by the construction time,
  and an event built with no timestamp while the clock reads 0 returns \<open>now\<close>.
\<close>

theorem renderOccurrence_zero_timestamp_counterexample:
  "renderOccurrence (BaseEvent ''generated-uuid'' 1000 Map.empty ''event'' None (Some 0) None) 5
     = 1000
   \<and> renderOccurrence (BaseEvent ''generated-uuid'' 1000 Map.empty ''event'' None (Some 0) None) 5
     \<noteq> 0
   \<and> renderOccurrence (BaseEvent ''generated-uuid'' 0 Map.empty ''event'' None None None) 5 = 5
   \<and> renderOccurrence (BaseEvent ''generated-uuid'' 0 Map.empty ''event'' None None None) 5
     \<noteq> 0"
  by (simp add: renderOccurrence_def BaseEvent_def or_number_def)

text \<open>
  C8, amended. An event built with an explicit timestamp \<open>T\<close> other than 0 returns \<open>T\<close>
  from \<open>renderOccurrence\<close>, whatever the argument; an event built without a timestamp
  returns the clock reading at construction, when that is not 0. The argument \<open>now\<close> is
  returned exactly when the stored timestamp is 0.
\<close>

theorem renderOccurrence_stored_timestamp:
  "(T \<noteq> 0 \<longrightarrow>
      renderOccurrence (BaseEvent generated clock ctx routine opt_payload (Some T) opt_uuid) x
        = T)
   \<and> (clock \<noteq> 0 \<longrightarrow>
      renderOccurrence (BaseEvent generated clock ctx routine opt_payload None opt_uuid) now
        = clock)
   \<and> (clock \<noteq> 0 \<longrightarrow>
      renderOccurrence (BaseEvent generated clock ctx routine opt_payload (Some 0) opt_uuid) now
        = clock)
   \<and> (occurred this \<noteq> 0 \<longrightarrow> renderOccurrence this now = occurred this)
   \<and> (occurred this = 0 \<longrightarrow> renderOccurrence this now = now)"
  by (simp add: renderOccurrence_def BaseEvent_def or_number_def)

theorem renderOccurrence_stored_timestamp_witness:
  "renderOccurrence (BaseEvent ''generated-uuid'' 1000 Map.empty ''event'' None (Some 42) None) 5
     = 42
   \<and> renderOccurrence (BaseEvent ''generated-uuid'' 1000 Map.empty ''event'' None None None) 5
     = 1000"
  using renderOccurrence_stored_timestamp
    [where T = 42 and generated = "''generated-uuid''" and clock = 1000
       and ctx = Map.empty and routine = "''event''" and opt_payload = None
       and opt_uuid = None and x = 5 and now = 5
       and this = "BaseEvent ''generated-uuid'' 1000 Map.empty ''event'' None None None"]
  by simp


section \<open>Setup\<close>

text \<open>
  C9. \<open>setup\<close> checks that partner and location are non-empty. When both are, it sets
  the telemetry endpoint to the override, or to the default when no override or an empty
  one is given, and calls the callback once; when either is empty, it sets no endpoint and
  calls nothing.
\<close>

theorem setup_validates_partner_and_location:
  "(partner = [] \<or> location = [] \<longrightarrow>
      endpoints_telemetry
        (telemetry_setup TELEMETRY_API_ENDPOINT partner location apikey callback endpoint w)
        = endpoints_telemetry w
    \<and> calls (telemetry_setup TELEMETRY_API_ENDPOINT partner location apikey callback endpoint w)
        = calls w)
   \<and> (partner \<noteq> [] \<and> location \<noteq> [] \<longrightarrow>
      endpoints_telemetry
        (telemetry_setup TELEMETRY_API_ENDPOINT partner location apikey callback endpoint w)
        = Some (case endpoint of
                  None \<Rightarrow> TELEMETRY_API_ENDPOINT
                | Some e \<Rightarrow> if e = [] then TELEMETRY_API_ENDPOINT else e)
    \<and> calls (telemetry_setup TELEMETRY_API_ENDPOINT partner location apikey callback endpoint w)
        = calls w @ [ReadyCall callback])"
  by (simp add: telemetry_setup_def logging_error_def logging_log_def or_string_def Let_def)

theorem setup_validates_partner_and_location_witness:
  "endpoints_telemetry
     (telemetry_setup ''https://telemetry.default'' ''acme'' ''store-1'' ''key'' 7
        (Some ''https://telemetry.override'') example_world) = Some ''https://telemetry.override''
   \<and> calls (telemetry_setup ''https://telemetry.default'' ''acme'' ''store-1'' ''key'' 7
        (Some ''https://telemetry.override'') example_world) = [ReadyCall 7]
   \<and> endpoints_telemetry
     (telemetry_setup ''https://telemetry.default'' ''acme'' ''store-1'' ''key'' 7
        None example_world) = Some ''https://telemetry.default''
   \<and> endpoints_telemetry
     (telemetry_setup ''https://telemetry.default'' ''acme'' [] ''key'' 7
        (Some ''https://telemetry.override'') example_world) = None
   \<and> calls (telemetry_setup ''https://telemetry.default'' ''acme'' [] ''key'' 7
        (Some ''https://telemetry.override'') example_world) = []"
  using setup_validates_partner_and_location
    [where partner = "''acme''" and location = "''store-1''"
       and TELEMETRY_API_ENDPOINT = "''https://telemetry.default''" and apikey = "''key''"
       and callback = 7 and endpoint = "Some ''https://telemetry.override''" and w = example_world]
    setup_validates_partner_and_location
    [where partner = "''acme''" and location = "''store-1''"
       and TELEMETRY_API_ENDPOINT = "''https://telemetry.default''" and apikey = "''key''"
       and callback = 7 and endpoint = "None" and w = example_world]
    setup_validates_partner_and_location
    [where partner = "''acme''" and location = "[]"
       and TELEMETRY_API_ENDPOINT = "''https://telemetry.default''" and apikey = "''key''"
       and callback = 7 and endpoint = "Some ''https://telemetry.override''" and w = example_world]
  by (simp add: example_world_def)


section \<open>An empty identifier\<close>

text \<open>
  C10. An event built with the empty string as its identifier gets the generated
  identifier instead, which is non-empty when the generator's result is; a supplied
  identifier is kept only when it is non-empty.
\<close>

theorem empty_uuid_is_discarded:
  "renderUUID (BaseEvent generated clock ctx routine opt_payload opt_occurred (Some []))
     = generated
   \<and> (generated \<noteq> [] \<longrightarrow>
        renderUUID (BaseEvent generated clock ctx routine opt_payload opt_occurred (Some []))
          \<noteq> [])
   \<and> (u \<noteq> [] \<longrightarrow>
        renderUUID (BaseEvent generated clock ctx routine opt_payload opt_occurred (Some u))
          = u)
   \<and> renderUUID (BaseEvent generated clock ctx routine opt_payload opt_occurred None)
       = generated"
  by (simp add: renderUUID_def BaseEvent_def or_string_def)

theorem empty_uuid_is_discarded_witness:
  "renderUUID (BaseEvent ''generated-uuid'' 1000 Map.empty ''event'' None None (Some []))
     = ''generated-uuid''
   \<and> renderUUID (BaseEvent ''generated-uuid'' 1000 Map.empty ''event'' None None (Some ''abc''))
     = ''abc''"
  using empty_uuid_is_discarded
    [where generated = "''generated-uuid''" and clock = 1000 and ctx = Map.empty
       and routine = "''event''" and opt_payload = None and opt_occurred = None
       and u = "''abc''"]
  by simp

end
